theory Spec2Isabelle
  imports Main "HOL-Library.Word"
begin

section \<open>Python values used by \<open>app.py\<close>\<close>

text \<open>
  Exceptions of the source that are derived from \<open>Exception\<close>. Every
  \<open>except Exception\<close> clause of \<open>app.py\<close> catches each of them.
\<close>

datatype py_error =
    IndexError
  | ValueError
  | TypeError
  | UnicodeEncodeError
  | NotImplementedError
  | FirestoreError

text \<open>
  \<open>str.split(sep)\<close> for a one-character separator: the text is cut at every
  occurrence of the separator, so the result has one more element than there are
  separators and is never empty (\<open>''.split('|') == ['']\<close>).
\<close>

fun split_on :: "char \<Rightarrow> string \<Rightarrow> string list" where
  "split_on c [] = [[]]"
| "split_on c (x # xs) =
     (if x = c then [] # split_on c xs
      else (case split_on c xs of
              [] \<Rightarrow> [[x]]
            | w # ws \<Rightarrow> (x # w) # ws))"

text \<open>\<open>sep.join(parts)\<close>.\<close>

fun join :: "string \<Rightarrow> string list \<Rightarrow> string" where
  "join sep [] = []"
| "join sep [p] = p"
| "join sep (p # q # ps) = p @ sep @ join sep (q # ps)"

text \<open>
  A Python \<open>dict\<close> with string keys and values, in insertion order:
  \<open>d[key] = value\<close> overwrites the value of a key that is present, in its place,
  and appends a key that is new.
\<close>

type_synonym str_dict = "(string \<times> string) list"

fun dict_setitem :: "string \<Rightarrow> string \<Rightarrow> str_dict \<Rightarrow> str_dict" where
  "dict_setitem key val [] = [(key, val)]"
| "dict_setitem key val ((k, v) # d) =
     (if k = key then (k, val) # d else (k, v) # dict_setitem key val d)"

text \<open>\<open>s.encode('ascii')\<close> raises \<open>UnicodeEncodeError\<close> on a character above 127.\<close>

definition is_ascii :: "string \<Rightarrow> bool" where
  "is_ascii s = list_all (\<lambda>c. (of_char c :: nat) < 128) s"

definition encode_ascii :: "string \<Rightarrow> py_error + string" where
  "encode_ascii s = (if is_ascii s then Inr s else Inl UnicodeEncodeError)"

section \<open>The wire codec: class \<open>Iso8583Message\<close>\<close>

text \<open>
  The two attributes of the object. \<open>mti\<close> is \<open>None\<close> on a new object.
\<close>

record Iso8583Message =
  mti :: "string option"
  data_elements :: str_dict

text \<open>
  JSON values as Python holds them. A float is kept as mantissa and exponent; only
  whether it is zero matters here.
\<close>

datatype json =
    JNull
  | JBool bool
  | JInt int
  | JFloat int int
  | JStr string
  | JArr "json list"
  | JObj "(string \<times> json) list"

text \<open>The events the source writes to the process log, with the values they carry.\<close>

datatype log_event =
    UnpackFailed py_error
  | PayoutInitiating json string string
  | PayoutSuccessful string
  | PayoutFailed py_error
  | FirestoreUnavailable
  | TransactionLogged json
  | FirestoreLogError py_error

definition new_message :: Iso8583Message where
  "new_message = \<lparr>mti = None, data_elements = []\<rparr>"

text \<open>
  The \<open>for\<close> loop of \<open>unpack\<close> over the elements of the data segment.
  \<open>key, value = element.split(':')\<close> raises \<open>ValueError\<close> unless the element
  splits into exactly two parts. The loop stores into \<open>self.data_elements\<close> as it
  goes, so the pairs stored before an exception stay in the object: the result is the
  dictionary reached together with the exception, if any.
\<close>

fun unpack_loop :: "string list \<Rightarrow> str_dict \<Rightarrow> str_dict \<times> py_error option" where
  "unpack_loop [] d = (d, None)"
| "unpack_loop (element # elements) d =
     (case split_on CHR '':'' element of
        [key, val] \<Rightarrow> unpack_loop elements (dict_setitem key val d)
      | _ \<Rightarrow> (d, Some ValueError))"

text \<open>
  The body of the \<open>try\<close> block of \<open>unpack\<close>: the object as the body leaves it,
  and the exception that ended it, if any. \<open>parts[0].split(':')[1]\<close> and
  \<open>parts[1]\<close> raise \<open>IndexError\<close> when the index is out of range.
\<close>

definition unpack_try :: "Iso8583Message \<Rightarrow> string \<Rightarrow> Iso8583Message \<times> py_error option" where
  "unpack_try self message_str =
     (let parts = split_on CHR ''|'' message_str in
      case parts of
        [] \<Rightarrow> (self, Some IndexError)
      | p0 # rest \<Rightarrow>
          (case split_on CHR '':'' p0 of
             _ # t # _ \<Rightarrow>
               (let self1 = self\<lparr>mti := Some t\<rparr> in
                case rest of
                  [] \<Rightarrow> (self1, Some IndexError)
                | data_part # _ \<Rightarrow>
                    (case unpack_loop (split_on CHR '','' data_part) (data_elements self1) of
                       (d, err) \<Rightarrow> (self1\<lparr>data_elements := d\<rparr>, err)))
           | _ \<Rightarrow> (self, Some IndexError)))"

text \<open>
  \<open>unpack\<close>: the \<open>except Exception\<close> clause logs the exception and sets
  \<open>self.mti = 'ERROR'\<close>; it does not touch \<open>self.data_elements\<close>.
\<close>

definition unpack :: "Iso8583Message \<Rightarrow> string \<Rightarrow> Iso8583Message \<times> log_event list" where
  "unpack self message_str =
     (case unpack_try self message_str of
        (self', None) \<Rightarrow> (self', [])
      | (self', Some e) \<Rightarrow> (self'\<lparr>mti := Some ''ERROR''\<rparr>, [UnpackFailed e]))"

text \<open>
  \<open>__init__\<close>: a new object, unpacked only when \<open>message_str\<close> is truthy
  (neither \<open>None\<close> nor the empty string).
\<close>

definition Iso8583Message_init :: "string option \<Rightarrow> Iso8583Message \<times> log_event list" where
  "Iso8583Message_init message_str =
     (case message_str of
        None \<Rightarrow> (new_message, [])
      | Some s \<Rightarrow> (if s = [] then (new_message, []) else unpack new_message s))"

text \<open>
  \<open>pack\<close> stores its arguments in the object and returns the encoded text, or the
  exception of \<open>encode('ascii')\<close>.
\<close>

definition pack :: "Iso8583Message \<Rightarrow> string \<Rightarrow> str_dict \<Rightarrow> Iso8583Message \<times> (py_error + string)" where
  "pack self mti' data_elements' =
     (let self1 = self\<lparr>mti := Some mti', data_elements := data_elements'\<rparr>;
          data_parts = map (\<lambda>(key, val). key @ '':'' @ val) (data_elements self1);
          message_str = ''MTI:'' @ mti' @ ''|'' @ join '','' data_parts
      in (self1, encode_ascii message_str))"

text \<open>
  Decoding a wire text is \<open>unpack\<close> on a new object. The socket listener that turns
  received bytes into text is not part of the source; the bytes of \<open>pack\<close> are read
  back as the ASCII text they encode.
\<close>

definition decode :: "string \<Rightarrow> Iso8583Message" where
  "decode message_str = fst (unpack new_message message_str)"

definition encode :: "string \<Rightarrow> str_dict \<Rightarrow> py_error + string" where
  "encode mti' data_elements' = snd (pack new_message mti' data_elements')"

definition decode_encoded :: "string \<Rightarrow> str_dict \<Rightarrow> py_error + Iso8583Message" where
  "decode_encoded mti' data_elements' =
     (case encode mti' data_elements' of
        Inl e \<Rightarrow> Inl e
      | Inr raw \<Rightarrow> Inr (decode raw))"

subsection \<open>The wire format in the words of the specification\<close>

text \<open>
  The grammar is \<open>"MTI:" <messageType> "|" <field> ("," <field>)*\<close> with
  \<open><field> ::= <code> ":" <value>\<close>. The following definitions read a text by its
  delimiters, without \<open>split_on\<close>: the part before the first \<open>|\<close>, the part
  between the first and the second \<open>|\<close>, and the text between the first and the
  second colon of the first part.
\<close>

definition segment1 :: "string \<Rightarrow> string" where
  "segment1 s = takeWhile (\<lambda>c. c \<noteq> CHR ''|'') s"

definition segment2 :: "string \<Rightarrow> string" where
  "segment2 s =
     takeWhile (\<lambda>c. c \<noteq> CHR ''|'') (drop 1 (dropWhile (\<lambda>c. c \<noteq> CHR ''|'') s))"

definition message_type_text :: "string \<Rightarrow> string" where
  "message_type_text s =
     takeWhile (\<lambda>c. c \<noteq> CHR '':'')
       (drop 1 (dropWhile (\<lambda>c. c \<noteq> CHR '':'') (segment1 s)))"

text \<open>The structural violations: no \<open>|\<close> at all, no colon in the first segment, an
  element of the data segment that does not hold exactly one colon.\<close>

definition missing_delimiter :: "string \<Rightarrow> bool" where
  "missing_delimiter s = (CHR ''|'' \<notin> set s)"

definition missing_type_tag :: "string \<Rightarrow> bool" where
  "missing_type_tag s = (CHR '':'' \<notin> set (segment1 s))"

definition malformed_pair :: "string \<Rightarrow> bool" where
  "malformed_pair element = (count_list element CHR '':'' \<noteq> 1)"

definition rejected :: "string \<Rightarrow> bool" where
  "rejected s =
     (missing_delimiter s \<or> missing_type_tag s \<or>
      list_ex malformed_pair (split_on CHR '','' (segment2 s)))"

text \<open>
  A well-formed message for the round trip: a non-empty type and a dictionary (keys
  pairwise different), all of ASCII characters and free of the delimiters that would
  end the part they stand in.
\<close>

definition delimiter_free :: "string \<Rightarrow> bool" where
  "delimiter_free s =
     (CHR ''|'' \<notin> set s \<and> CHR '','' \<notin> set s \<and> CHR '':'' \<notin> set s)"

definition well_formed :: "string \<Rightarrow> str_dict \<Rightarrow> bool" where
  "well_formed mti' d =
     (mti' \<noteq> [] \<and> is_ascii mti' \<and> CHR ''|'' \<notin> set mti' \<and> CHR '':'' \<notin> set mti' \<and>
      distinct (map fst d) \<and>
      list_all (\<lambda>(key, val). is_ascii key \<and> is_ascii val \<and>
                              delimiter_free key \<and> delimiter_free val) d)"

section \<open>The payment pipeline\<close>

text \<open>The request is the JSON object of the web channel, a Python \<open>dict\<close>.\<close>

type_synonym py_dict = "string \<rightharpoonup> json"

text \<open>\<open>d.get(key)\<close> is \<open>None\<close> for a missing key; \<open>None\<close> is \<open>JNull\<close>.\<close>

definition dict_get :: "py_dict \<Rightarrow> string \<Rightarrow> json" where
  "dict_get d key = (case d key of None \<Rightarrow> JNull | Some v \<Rightarrow> v)"

definition dict_get_default :: "py_dict \<Rightarrow> string \<Rightarrow> json \<Rightarrow> json" where
  "dict_get_default d key dflt = (case d key of None \<Rightarrow> dflt | Some v \<Rightarrow> v)"

text \<open>The truth value Python gives a value in \<open>all([...])\<close> and \<open>not x\<close>.\<close>

fun truthy :: "json \<Rightarrow> bool" where
  "truthy JNull = False"
| "truthy (JBool b) = b"
| "truthy (JInt i) = (i \<noteq> 0)"
| "truthy (JFloat m e) = (m \<noteq> 0)"
| "truthy (JStr s) = (s \<noteq> [])"
| "truthy (JArr xs) = (xs \<noteq> [])"
| "truthy (JObj kvs) = (kvs \<noteq> [])"

subsection \<open>The payout service\<close>

record payout_result =
  status :: string
  hash :: "string option"

type_synonym payout_service = "json \<Rightarrow> string \<Rightarrow> string \<Rightarrow> payout_result \<times> log_event list"

text \<open>\<open>bytes.hex()\<close>: two lower-case hexadecimal digits for each byte.\<close>

definition hex_digit :: "nat \<Rightarrow> char" where
  "hex_digit n = ''0123456789abcdef'' ! (n mod 16)"

definition hex_byte :: "8 word \<Rightarrow> string" where
  "hex_byte b = [hex_digit (unat b div 16), hex_digit (unat b mod 16)]"

definition bytes_hex :: "8 word list \<Rightarrow> string" where
  "bytes_hex bs = concat (map hex_byte bs)"

text \<open>
  \<open>os.urandom(32)\<close> either returns the bytes the operating system supplies or
  raises (\<open>NotImplementedError\<close> when no randomness source is found); the first
  argument is that outcome. The \<open>except Exception\<close> clause of \<open>initiate_payout\<close>
  catches the exception and returns the failure result. \<open>logging\<close> and
  \<open>time.sleep(1)\<close> do not raise; the delay itself is not modelled.
\<close>

definition initiate_payout :: "py_error + 8 word list \<Rightarrow> payout_service" where
  "initiate_payout drawn amount payout_type wallet_address =
     (case drawn of
        Inr bytes \<Rightarrow>
          (let blockchain_tx_hash = ''0x'' @ bytes_hex bytes in
           (\<lparr>status = ''success'', hash = Some blockchain_tx_hash\<rparr>,
            [PayoutInitiating amount payout_type wallet_address,
             PayoutSuccessful blockchain_tx_hash]))
      | Inl e \<Rightarrow>
          (\<lparr>status = ''failure'', hash = None\<rparr>,
           [PayoutInitiating amount payout_type wallet_address, PayoutFailed e]))"

subsection \<open>The ledger\<close>

text \<open>
  A stored document holds JSON values and the \<open>SERVER_TIMESTAMP\<close> sentinel. The
  database is the list of documents added so far, each with the application and the
  user it is filed under; the global \<open>db\<close> is \<open>None\<close> when Firebase was not
  initialised.
\<close>

datatype fs_value = Plain json | SERVER_TIMESTAMP

type_synonym fs_document = "string \<rightharpoonup> fs_value"

type_synonym firestore = "(string \<times> json \<times> fs_document) list"

record world =
  db :: "firestore option"
  app_id :: string
  logged :: "log_event list"

text \<open>
  What the run draws from outside: the value of \<open>random.choice([True, False])\<close>, the
  outcome of \<open>os.urandom(32)\<close> (the bytes, or the exception it raises), and whether
  the Firestore calls inside the \<open>try\<close> block return (\<open>None\<close>) or raise.
\<close>

record environment =
  random_choice :: bool
  urandom :: "py_error + 8 word list"
  firestore_add :: "py_error option"

definition emit :: "log_event list \<Rightarrow> world \<Rightarrow> world" where
  "emit events w = w\<lparr>logged := logged w @ events\<rparr>"

definition log_transaction_to_firestore ::
  "environment \<Rightarrow> world \<Rightarrow> json \<Rightarrow> py_dict \<Rightarrow> py_dict \<Rightarrow> world" where
  "log_transaction_to_firestore env w user_id data result =
     (case db w of
        None \<Rightarrow> emit [FirestoreUnavailable] w
      | Some store \<Rightarrow>
          if \<not> truthy user_id then emit [FirestoreUnavailable] w
          else
            (case firestore_add env of
               Some e \<Rightarrow> emit [FirestoreLogError e] w
             | None \<Rightarrow>
                 emit [TransactionLogged user_id]
                   (w\<lparr>db := Some (store @
                      [(app_id w, user_id,
                        [''amount'' \<mapsto> Plain (dict_get data ''amount''),
                         ''currency'' \<mapsto> Plain (dict_get data ''currency''),
                         ''protocol'' \<mapsto> Plain (dict_get data ''protocol''),
                         ''cardNumber'' \<mapsto> Plain (dict_get data ''cardNumber''),
                         ''status'' \<mapsto> Plain (dict_get result ''status''),
                         ''response_code'' \<mapsto> Plain (dict_get result ''response_code''),
                         ''blockchain_hash'' \<mapsto> Plain (dict_get result ''blockchain_hash''),
                         ''timestamp'' \<mapsto> SERVER_TIMESTAMP])])\<rparr>)))"

subsection \<open>\<open>process_payment_logic\<close>\<close>

definition required_present :: "py_dict \<Rightarrow> bool" where
  "required_present data =
     list_all truthy
       [dict_get data ''amount'', dict_get data ''currency'',
        dict_get data ''cardNumber'', dict_get data ''protocol'']"

definition merchant_wallet :: string where
  "merchant_wallet = ''Txxxxxxxxxxxxxxxxxxxxxxxxxxxxxxxxx''"

definition make_result :: "bool \<Rightarrow> string \<Rightarrow> string \<Rightarrow> json \<Rightarrow> py_dict" where
  "make_result is_approved response_code status_message blockchain_tx_hash =
     [''status'' \<mapsto> JStr (if is_approved then ''approved'' else ''declined''),
      ''response_code'' \<mapsto> JStr response_code,
      ''message'' \<mapsto> JStr status_message,
      ''blockchain_hash'' \<mapsto> blockchain_tx_hash]"

text \<open>
  The function calls \<open>initiate_payout\<close> by its module-level name, which Python looks
  up at the call; the first parameter stands for the function found there. The result
  is the returned \<open>dict\<close> and the world after the call.
\<close>

definition process_payment_logic_using ::
  "payout_service \<Rightarrow> environment \<Rightarrow> world \<Rightarrow> py_dict \<Rightarrow> py_dict \<times> world" where
  "process_payment_logic_using payout env w data =
     (let amount = dict_get data ''amount'';
          user_id = dict_get_default data ''userId'' (JStr ''virtual-terminal-1'')
      in
      if \<not> required_present data then
        ([''status'' \<mapsto> JStr ''declined'',
          ''response_code'' \<mapsto> JStr ''99'',
          ''message'' \<mapsto> JStr ''Missing transaction data.''], w)
      else
        (let is_approved = random_choice env in
         if is_approved then
           (case payout amount ''USDT_TRC20'' merchant_wallet of
              (payout_result, events) \<Rightarrow>
                (let w1 = emit events w;
                     result =
                       (if status payout_result = ''success'' then
                          make_result is_approved ''00''
                            ''Transaction approved and payout initiated.''
                            (case hash payout_result of
                               None \<Rightarrow> JNull
                             | Some h \<Rightarrow> JStr h)
                        else
                          make_result is_approved ''05''
                            ''Transaction approved, but payout failed.'' JNull)
                 in (result, log_transaction_to_firestore env w1 user_id data result)))
         else
           (let result =
                  make_result is_approved ''51''
                    ''Transaction declined by internal rules.'' JNull
            in (result, log_transaction_to_firestore env w user_id data result))))"

definition process_payment_logic :: "environment \<Rightarrow> world \<Rightarrow> py_dict \<Rightarrow> py_dict \<times> world" where
  "process_payment_logic env w data =
     process_payment_logic_using (initiate_payout (urandom env)) env w data"

subsection \<open>Reading a reply and the ledger\<close>

text \<open>
  The required fields in the order of the specification, the first of them that a
  request lacks, and whether a reply mentions a field name in one of its texts.
\<close>

definition required_fields :: "string list" where
  "required_fields = [''amount'', ''currency'', ''cardNumber'', ''protocol'']"

definition first_offending :: "py_dict \<Rightarrow> string option" where
  "first_offending data = find (\<lambda>f. \<not> truthy (dict_get data f)) required_fields"

fun starts_with :: "string \<Rightarrow> string \<Rightarrow> bool" where
  "starts_with s [] = True"
| "starts_with [] (p # ps) = False"
| "starts_with (c # s) (p # ps) = (c = p \<and> starts_with s ps)"

fun contains :: "string \<Rightarrow> string \<Rightarrow> bool" where
  "contains [] p = (p = [])"
| "contains (c # s) p = (starts_with (c # s) p \<or> contains s p)"

definition names_field :: "py_dict \<Rightarrow> string \<Rightarrow> bool" where
  "names_field reply field =
     list_ex (\<lambda>key. case reply key of Some (JStr t) \<Rightarrow> contains t field | _ \<Rightarrow> False)
       [''status'', ''response_code'', ''message'', ''blockchain_hash'']"

definition stored_card_numbers :: "world \<Rightarrow> fs_value option list" where
  "stored_card_numbers w =
     (case db w of
        None \<Rightarrow> []
      | Some store \<Rightarrow> map (\<lambda>(app, user, doc). doc ''cardNumber'') store)"

subsection \<open>Sample inputs\<close>

text \<open>
  A complete request, a request without \<open>amount\<close> and \<open>currency\<close>, a world with an
  empty database, an environment for each value of the random choice, and a payout
  service that fails.
\<close>

definition sample_request :: py_dict where
  "sample_request =
     [''amount'' \<mapsto> JFloat 5 1,
      ''currency'' \<mapsto> JStr ''USD'',
      ''cardNumber'' \<mapsto> JStr ''4111111111111111'',
      ''protocol'' \<mapsto> JStr ''VISA'']"

definition incomplete_request :: py_dict where
  "incomplete_request =
     [''cardNumber'' \<mapsto> JStr ''4111111111111111'',
      ''protocol'' \<mapsto> JStr ''VISA'']"

definition sample_world :: world where
  "sample_world = \<lparr>db = Some [], app_id = ''default-app-id'', logged = []\<rparr>"

definition sample_env :: "bool \<Rightarrow> environment" where
  "sample_env choice = \<lparr>random_choice = choice, urandom = Inr [171, 1], firestore_add = None\<rparr>"

definition failing_payout :: payout_service where
  "failing_payout amount payout_type wallet_address =
     (\<lparr>status = ''failure'', hash = None\<rparr>,
      [PayoutInitiating amount payout_type wallet_address, PayoutFailed NotImplementedError])"

section \<open>Properties of the primitives\<close>

lemma split_on_nonempty: "split_on c s \<noteq> []"
  by (induction s) (auto split: list.splits)

lemma split_on_notin: "c \<notin> set a \<Longrightarrow> split_on c a = [a]"
  by (induction a) auto

lemma split_on_append: "c \<notin> set a \<Longrightarrow> split_on c (a @ c # b) = a # split_on c b"
  by (induction a) auto

lemma split_on_takeWhile:
  "split_on c s = takeWhile (\<lambda>x. x \<noteq> c) s #
     (case dropWhile (\<lambda>x. x \<noteq> c) s of [] \<Rightarrow> [] | _ # r \<Rightarrow> split_on c r)"
  by (induction s) (auto split: list.splits)

lemma length_split_on: "length (split_on c s) = Suc (count_list s c)"
  by (induction s) (auto split: list.splits)

lemma takeWhile_sep_append:
  "c \<notin> set a \<Longrightarrow> takeWhile (\<lambda>x. x \<noteq> c) (a @ b) = a @ takeWhile (\<lambda>x. x \<noteq> c) b"
  by (induction a) auto

lemma dropWhile_sep_append:
  "c \<notin> set a \<Longrightarrow> dropWhile (\<lambda>x. x \<noteq> c) (a @ b) = dropWhile (\<lambda>x. x \<noteq> c) b"
  by (induction a) auto

lemma takeWhile_sep_notin: "c \<notin> set b \<Longrightarrow> takeWhile (\<lambda>x. x \<noteq> c) b = b"
  by (induction b) auto

lemma split_on_in:
  assumes "c \<in> set s"
  shows "\<exists>rest. split_on c s =
           takeWhile (\<lambda>x. x \<noteq> c) s #
           takeWhile (\<lambda>x. x \<noteq> c) (drop 1 (dropWhile (\<lambda>x. x \<noteq> c) s)) # rest"
proof -
  from assms obtain r where r: "dropWhile (\<lambda>x. x \<noteq> c) s = c # r"
    by (metis (mono_tags, lifting) dropWhile_eq_Nil_conv hd_dropWhile list.exhaust_sel)
  have "split_on c s = takeWhile (\<lambda>x. x \<noteq> c) s # split_on c r"
    using split_on_takeWhile [of c s] r by simp
  moreover have "\<exists>rest. split_on c r = takeWhile (\<lambda>x. x \<noteq> c) r # rest"
    using split_on_takeWhile [of c r] by blast
  ultimately show ?thesis using r by auto
qed

lemma split_pair_iff: "(\<exists>k v. split_on c e = [k, v]) \<longleftrightarrow> count_list e c = 1"
proof -
  have "(\<exists>k v. split_on c e = [k, v]) \<longleftrightarrow> length (split_on c e) = 2"
    by (auto simp: length_Suc_conv numeral_2_eq_2)
  then show ?thesis by (simp add: length_split_on)
qed

lemma split_on_join:
  "parts \<noteq> [] \<Longrightarrow> \<forall>p\<in>set parts. c \<notin> set p \<Longrightarrow> split_on c (join [c] parts) = parts"
proof (induction "[c]" parts rule: join.induct)
  case 1
  then show ?case by simp
next
  case (2 p)
  then show ?case by (simp add: split_on_notin)
next
  case (3 p q ps)
  then show ?case by (simp add: split_on_append)
qed

lemma set_join: "set (join sep parts) \<subseteq> set sep \<union> \<Union> (set ` set parts)"
  by (induction sep parts rule: join.induct) auto

lemma is_ascii_append [simp]: "is_ascii (a @ b) \<longleftrightarrow> is_ascii a \<and> is_ascii b"
  by (simp add: is_ascii_def)

lemma is_ascii_join:
  "is_ascii sep \<Longrightarrow> \<forall>p\<in>set parts. is_ascii p \<Longrightarrow> is_ascii (join sep parts)"
  by (induction sep parts rule: join.induct) (auto simp: is_ascii_def)

lemma dict_setitem_new: "key \<notin> fst ` set d \<Longrightarrow> dict_setitem key val d = d @ [(key, val)]"
  by (induction d) auto


section \<open>The decoder, case by case\<close>

lemma unpack_loop_error_iff:
  "snd (unpack_loop es d) \<noteq> None \<longleftrightarrow> list_ex malformed_pair es"
proof (induction es arbitrary: d)
  case Nil
  then show ?case by simp
next
  case (Cons e es)
  show ?case
  proof (cases "count_list e CHR '':'' = 1")
    case True
    then obtain k v where "split_on CHR '':'' e = [k, v]"
      using split_pair_iff by blast
    with True Cons show ?thesis by (simp add: malformed_pair_def)
  next
    case False
    then have "\<not> (\<exists>k v. split_on CHR '':'' e = [k, v])"
      using split_pair_iff by blast
    then have "unpack_loop (e # es) d = (d, Some ValueError)"
      by (auto split: list.splits)
    with False show ?thesis by (simp add: malformed_pair_def)
  qed
qed

lemma unpack_loop_pairs:
  assumes "list_all (\<lambda>(key, val). CHR '':'' \<notin> set key \<and> CHR '':'' \<notin> set val) kvs"
    and "distinct (map fst (d @ kvs))"
  shows "unpack_loop (map (\<lambda>(key, val). key @ '':'' @ val) kvs) d = (d @ kvs, None)"
  using assms
proof (induction kvs arbitrary: d)
  case Nil
  then show ?case by simp
next
  case (Cons kv kvs)
  obtain k v where kv: "kv = (k, v)" by (cases kv)
  from Cons.prems kv have split: "split_on CHR '':'' (k @ '':'' @ v) = [k, v]"
    by (simp add: split_on_append split_on_notin)
  from Cons.prems kv have new: "dict_setitem k v d = d @ [(k, v)]"
    by (intro dict_setitem_new) auto
  have "unpack_loop (map (\<lambda>(key, val). key @ '':'' @ val) kvs) (d @ [(k, v)]) =
          ((d @ [(k, v)]) @ kvs, None)"
    using Cons.prems kv by (intro Cons.IH) auto
  with split new kv show ?case by simp
qed

lemma unpack_try_header_broken:
  assumes "missing_delimiter s \<or> missing_type_tag s"
  shows "\<exists>t. unpack_try new_message s = (\<lparr>mti = t, data_elements = []\<rparr>, Some IndexError)"
proof (cases "missing_type_tag s")
  case True
  then have "split_on CHR '':'' (segment1 s) = [segment1 s]"
    by (simp add: missing_type_tag_def split_on_notin)
  moreover obtain rest where "split_on CHR ''|'' s = segment1 s # rest"
    using split_on_takeWhile [of "CHR ''|''" s] by (simp add: segment1_def)
  ultimately show ?thesis
    by (simp add: unpack_try_def new_message_def)
next
  case False
  with assms have "split_on CHR ''|'' s = [s]"
    by (simp add: missing_delimiter_def split_on_notin)
  then show ?thesis
    by (simp add: unpack_try_def new_message_def split: list.splits)
qed

lemma unpack_try_header_ok:
  assumes "\<not> missing_delimiter s" and "\<not> missing_type_tag s"
  shows "unpack_try new_message s =
     (case unpack_loop (split_on CHR '','' (segment2 s)) [] of
        (d, err) \<Rightarrow> (\<lparr>mti = Some (message_type_text s), data_elements = d\<rparr>, err))"
proof -
  obtain rest where parts: "split_on CHR ''|'' s = segment1 s # segment2 s # rest"
    using split_on_in [of "CHR ''|''" s] assms(1)
    by (auto simp: missing_delimiter_def segment1_def segment2_def)
  obtain tag more where tagged:
    "split_on CHR '':'' (segment1 s) = tag # message_type_text s # more"
    using split_on_in [of "CHR '':''" "segment1 s"] assms(2)
    by (auto simp: missing_type_tag_def message_type_text_def)
  show ?thesis
    by (simp add: unpack_try_def new_message_def parts tagged split: prod.splits)
qed

lemma unpack_try_raises_iff: "snd (unpack_try new_message s) \<noteq> None \<longleftrightarrow> rejected s"
proof (cases "missing_delimiter s \<or> missing_type_tag s")
  case True
  then show ?thesis
    using unpack_try_header_broken [of s] by (auto simp: rejected_def)
next
  case False
  then show ?thesis
    using unpack_try_header_ok [of s]
      unpack_loop_error_iff [of "split_on CHR '','' (segment2 s)" "[]"]
    by (auto simp: rejected_def split: prod.splits)
qed

lemma decode_header_broken:
  assumes "missing_delimiter s \<or> missing_type_tag s"
  shows "decode s = \<lparr>mti = Some ''ERROR'', data_elements = []\<rparr>"
  using unpack_try_header_broken [OF assms] by (auto simp: decode_def unpack_def)

lemma decode_header_ok:
  assumes "\<not> missing_delimiter s" and "\<not> missing_type_tag s"
  shows "decode s =
     (case unpack_loop (split_on CHR '','' (segment2 s)) [] of
        (d, None) \<Rightarrow> \<lparr>mti = Some (message_type_text s), data_elements = d\<rparr>
      | (d, Some e) \<Rightarrow> \<lparr>mti = Some ''ERROR'', data_elements = d\<rparr>)"
  using unpack_try_header_ok [OF assms]
  by (simp add: decode_def unpack_def split: prod.splits option.splits)

lemma mti_decode:
  "mti (decode s) = Some (if rejected s then ''ERROR'' else message_type_text s)"
proof (cases "missing_delimiter s \<or> missing_type_tag s")
  case True
  then show ?thesis using decode_header_broken [of s] by (auto simp: rejected_def)
next
  case False
  obtain d err where l: "unpack_loop (split_on CHR '','' (segment2 s)) [] = (d, err)"
    by fastforce
  have "err \<noteq> None \<longleftrightarrow> list_ex malformed_pair (split_on CHR '','' (segment2 s))"
    using unpack_loop_error_iff [of "split_on CHR '','' (segment2 s)" "[]"] l by simp
  with False l show ?thesis
    using decode_header_ok [of s] by (auto simp: rejected_def)
qed

lemma unpack_logs_iff: "snd (unpack new_message s) \<noteq> [] \<longleftrightarrow> rejected s"
  using unpack_try_raises_iff [of s]
  by (auto simp: unpack_def split: prod.splits option.splits)

lemma decode_cong:
  assumes "missing_delimiter s = missing_delimiter s'"
    and "missing_type_tag s = missing_type_tag s'"
    and "segment2 s = segment2 s'"
    and "message_type_text s = message_type_text s'"
  shows "decode s = decode s'"
proof (cases "missing_delimiter s \<or> missing_type_tag s")
  case True
  with assms show ?thesis
    using decode_header_broken [of s] decode_header_broken [of s'] by simp
next
  case False
  with assms show ?thesis
    using decode_header_ok [of s] decode_header_ok [of s'] by simp
qed

text \<open>
  Encoding then decoding gives the message back when the field map is not empty.
\<close>

lemma roundtrip_nonempty:
  assumes wf: "well_formed m d" and ne: "d \<noteq> []"
  shows "decode_encoded m d = Inr \<lparr>mti = Some m, data_elements = d\<rparr>"
proof -
  let ?parts = "map (\<lambda>(key, val). key @ '':'' @ val) d"
  let ?data = "join '','' ?parts"
  let ?raw = "''MTI:'' @ m @ ''|'' @ ?data"
  have pairs: "\<forall>(k, v)\<in>set d. is_ascii k \<and> is_ascii v \<and> delimiter_free k \<and> delimiter_free v"
    using wf by (auto simp: well_formed_def list_all_iff)
  have ascii_parts: "\<forall>p\<in>set ?parts. is_ascii p"
    using pairs by (auto simp: is_ascii_def)
  have "is_ascii ?data"
    using ascii_parts by (intro is_ascii_join) (simp_all add: is_ascii_def)
  moreover have "is_ascii ''MTI:''" "is_ascii ''|''"
    by (simp_all add: is_ascii_def)
  ultimately have ascii: "is_ascii ?raw"
    using wf by (simp add: well_formed_def del: append.simps)
  have enc: "encode m d = Inr ?raw"
    using ascii by (simp add: encode_def pack_def encode_ascii_def new_message_def Let_def)
  have no_bar: "\<forall>p\<in>set ?parts. CHR ''|'' \<notin> set p"
    using pairs by (auto simp: delimiter_free_def)
  have no_comma: "\<forall>p\<in>set ?parts. CHR '','' \<notin> set p"
    using pairs by (auto simp: delimiter_free_def)
  have bar_data: "CHR ''|'' \<notin> set ?data"
    using set_join [of "'',''" ?parts] no_bar by auto
  have bar_head: "CHR ''|'' \<notin> set (''MTI:'' @ m)"
    using wf by (simp add: well_formed_def)
  have "split_on CHR ''|'' ((''MTI:'' @ m) @ CHR ''|'' # ?data) = (''MTI:'' @ m) # split_on CHR ''|'' ?data"
    using bar_head by (rule split_on_append)
  then have parts: "split_on CHR ''|'' ?raw = [''MTI:'' @ m, ?data]"
    using bar_data by (simp add: split_on_notin)
  have "split_on CHR '':'' (''MTI'' @ CHR '':'' # m) = ''MTI'' # split_on CHR '':'' m"
    by (rule split_on_append) simp
  then have head: "split_on CHR '':'' (''MTI:'' @ m) = [''MTI'', m]"
    using wf by (simp add: well_formed_def split_on_notin)
  have elems: "split_on CHR '','' ?data = ?parts"
    using split_on_join [of ?parts "CHR '',''"] ne no_comma by simp
  have "list_all (\<lambda>(key, val). CHR '':'' \<notin> set key \<and> CHR '':'' \<notin> set val) d"
    using pairs by (auto simp: list_all_iff delimiter_free_def)
  moreover have "distinct (map fst ([] @ d))"
    using wf by (simp add: well_formed_def)
  ultimately have loop: "unpack_loop ?parts [] = ([] @ d, None)"
    by (rule unpack_loop_pairs)
  have "decode ?raw = \<lparr>mti = Some m, data_elements = d\<rparr>"
    using parts head elems loop
    by (simp add: decode_def unpack_def unpack_try_def new_message_def del: append.simps split_on.simps)
  with enc show ?thesis by (simp add: decode_encoded_def del: append.simps)
qed


section \<open>Claims about the wire codec\<close>

text \<open>
  C1. The claim: for every well-formed message, the empty field map included, decoding
  the encoded message gives the message back. At the empty field map the code does
  not: \<open>pack\<close> writes \<open>MTI:0200|\<close>, and \<open>unpack\<close> splits the empty data segment
  into one empty element, which is no \<open>code:value\<close> pair, so the message comes back
  with type \<open>ERROR\<close>. (For a non-empty field map the round trip holds, lemma
  \<open>roundtrip_nonempty\<close>.)
\<close>

theorem roundtrip_fails_on_empty_field_map:
  "well_formed ''0200'' [] \<and>
   encode ''0200'' [] = Inr ''MTI:0200|'' \<and>
   decode_encoded ''0200'' [] = Inr \<lparr>mti = Some ''ERROR'', data_elements = []\<rparr> \<and>
   decode_encoded ''0200'' [] \<noteq> Inr \<lparr>mti = Some ''0200'', data_elements = []\<rparr>"
  by (simp add: well_formed_def is_ascii_def encode_def pack_def encode_ascii_def
      new_message_def decode_encoded_def decode_def unpack_def unpack_try_def)

text \<open>
  C3, as the claim states it: every structurally invalid input decodes to type
  \<open>ERROR\<close> with an empty field map. The input \<open>MTI:0200|39:00,bad\<close> has a malformed
  pair; it decodes to type \<open>ERROR\<close> with the pair \<open>39:00\<close> still in the field map.
\<close>

theorem decode_failure_keeps_pairs:
  "list_ex malformed_pair (split_on CHR '','' (segment2 ''MTI:0200|39:00,bad'')) \<and>
   decode ''MTI:0200|39:00,bad'' =
     \<lparr>mti = Some ''ERROR'', data_elements = [(''39'', ''00'')]\<rparr>"
  by (simp add: segment2_def malformed_pair_def decode_def unpack_def unpack_try_def
      new_message_def)

text \<open>
  C3, amended: an input without the \<open>|\<close> delimiter, without a colon in its first
  segment, or with an element of its data segment that does not hold exactly one
  colon decodes to type \<open>ERROR\<close>; in the first two cases the field map is empty.
\<close>

theorem decode_failure_postcondition:
  "rejected s \<Longrightarrow>
     mti (decode s) = Some ''ERROR'' \<and>
     (missing_delimiter s \<or> missing_type_tag s \<longrightarrow>
        decode s = \<lparr>mti = Some ''ERROR'', data_elements = []\<rparr>)"
  using mti_decode [of s] decode_header_broken [of s] by simp

theorem decode_failure_postcondition_witness:
  "rejected ''MTI0200 39:00'' \<and> missing_delimiter ''MTI0200 39:00'' \<and>
   mti (decode ''MTI0200 39:00'') = Some ''ERROR'' \<and>
   decode ''MTI0200 39:00'' = \<lparr>mti = Some ''ERROR'', data_elements = []\<rparr>"
proof -
  have d: "missing_delimiter ''MTI0200 39:00''"
    by (simp add: missing_delimiter_def)
  then have r: "rejected ''MTI0200 39:00''"
    by (simp add: rejected_def)
  from decode_failure_postcondition [OF r] d r show ?thesis by simp
qed

text \<open>
  C7, as the claim states it: every structurally invalid input decodes to type
  \<open>ERROR\<close>. The input \<open>MTI:|39:00\<close> has an empty type, which the specification
  counts as a structural violation; it decodes to the empty type, not to \<open>ERROR\<close>.
\<close>

theorem decode_accepts_empty_type:
  "message_type_text ''MTI:|39:00'' = [] \<and>
   decode ''MTI:|39:00'' = \<lparr>mti = Some [], data_elements = [(''39'', ''00'')]\<rparr> \<and>
   mti (decode ''MTI:|39:00'') \<noteq> Some ''ERROR''"
  by (simp add: message_type_text_def segment1_def decode_def unpack_def unpack_try_def
      new_message_def)

text \<open>
  C7, amended: \<open>decode\<close> returns a message for every input text, and the type of
  that message is always set: it is \<open>ERROR\<close> when the input has no \<open>|\<close>
  delimiter, no colon in its first segment, or an element of its data segment that
  does not hold exactly one colon, and otherwise the text between the first and the
  second colon of the first segment (which may be empty).
\<close>

theorem decode_total:
  "mti (decode s) = Some (if rejected s then ''ERROR'' else message_type_text s) \<and>
   (snd (unpack new_message s) \<noteq> [] \<longleftrightarrow> rejected s)"
  using mti_decode [of s] unpack_logs_iff [of s] by simp

theorem decode_total_witness:
  "rejected ''garbage'' \<and> mti (decode ''garbage'') = Some ''ERROR'' \<and>
   snd (unpack new_message ''garbage'') \<noteq> []"
proof -
  have r: "rejected ''garbage''"
    by (simp add: rejected_def missing_delimiter_def)
  with decode_total [of "''garbage''"] show ?thesis by simp
qed

text \<open>
  C10, as the claim states it: whenever the first segment holds a colon, the text
  between its first and second colon becomes the message type. The input
  \<open>XTI:0200\<close> has such a first segment and no \<open>|\<close>; it decodes to type
  \<open>ERROR\<close>, because the exception raised later overwrites the type.
\<close>

theorem type_overwritten_by_later_failure:
  "\<not> missing_type_tag ''XTI:0200'' \<and>
   message_type_text ''XTI:0200'' = ''0200'' \<and>
   mti (decode ''XTI:0200'') = Some ''ERROR''"
  by (simp add: missing_type_tag_def message_type_text_def segment1_def decode_def
      unpack_def unpack_try_def new_message_def)

text \<open>
  C10, amended: \<open>decode\<close> does not look at the tag. When the input is not rejected
  (it has a \<open>|\<close>, a colon in its first segment, and every element of its data
  segment holds exactly one colon), the text between the first and the second colon of
  the first segment is the message type; the decoded message is the same for any two
  tags free of \<open>:\<close> and \<open>|\<close>; and segments after the second are ignored.
\<close>

theorem tag_not_verified:
  "(\<not> rejected s \<longrightarrow> mti (decode s) = Some (message_type_text s)) \<and>
   (CHR '':'' \<notin> set tag \<and> CHR ''|'' \<notin> set tag \<and>
    CHR '':'' \<notin> set tag' \<and> CHR ''|'' \<notin> set tag' \<longrightarrow>
      decode (tag @ CHR '':'' # rest) = decode (tag' @ CHR '':'' # rest)) \<and>
   (CHR ''|'' \<notin> set a \<and> CHR ''|'' \<notin> set b \<longrightarrow>
      decode (a @ CHR ''|'' # b @ CHR ''|'' # extra) = decode (a @ CHR ''|'' # b))"
proof (intro conjI impI)
  assume "\<not> rejected s"
  then show "mti (decode s) = Some (message_type_text s)"
    using mti_decode [of s] by simp
next
  assume t: "CHR '':'' \<notin> set tag \<and> CHR ''|'' \<notin> set tag \<and>
    CHR '':'' \<notin> set tag' \<and> CHR ''|'' \<notin> set tag'"
  show "decode (tag @ CHR '':'' # rest) = decode (tag' @ CHR '':'' # rest)"
  proof (rule decode_cong)
    show "missing_delimiter (tag @ CHR '':'' # rest) = missing_delimiter (tag' @ CHR '':'' # rest)"
      using t by (simp add: missing_delimiter_def)
    show "missing_type_tag (tag @ CHR '':'' # rest) = missing_type_tag (tag' @ CHR '':'' # rest)"
      using t by (simp add: missing_type_tag_def segment1_def takeWhile_sep_append)
    show "segment2 (tag @ CHR '':'' # rest) = segment2 (tag' @ CHR '':'' # rest)"
      using t by (simp add: segment2_def dropWhile_sep_append)
    show "message_type_text (tag @ CHR '':'' # rest) = message_type_text (tag' @ CHR '':'' # rest)"
      using t by (simp add: message_type_text_def segment1_def takeWhile_sep_append dropWhile_sep_append)
  qed
next
  assume ab: "CHR ''|'' \<notin> set a \<and> CHR ''|'' \<notin> set b"
  show "decode (a @ CHR ''|'' # b @ CHR ''|'' # extra) = decode (a @ CHR ''|'' # b)"
  proof (rule decode_cong)
    show "missing_delimiter (a @ CHR ''|'' # b @ CHR ''|'' # extra) = missing_delimiter (a @ CHR ''|'' # b)"
      by (simp add: missing_delimiter_def)
    have s1: "segment1 (a @ CHR ''|'' # b @ CHR ''|'' # extra) = segment1 (a @ CHR ''|'' # b)"
      using ab by (simp add: segment1_def takeWhile_sep_append)
    then show "missing_type_tag (a @ CHR ''|'' # b @ CHR ''|'' # extra) = missing_type_tag (a @ CHR ''|'' # b)"
      by (simp add: missing_type_tag_def)
    show "segment2 (a @ CHR ''|'' # b @ CHR ''|'' # extra) = segment2 (a @ CHR ''|'' # b)"
      using ab
      by (simp add: segment2_def dropWhile_sep_append takeWhile_sep_append
          takeWhile_sep_notin)
    show "message_type_text (a @ CHR ''|'' # b @ CHR ''|'' # extra) = message_type_text (a @ CHR ''|'' # b)"
      using s1 by (simp add: message_type_text_def)
  qed
qed

theorem tag_not_verified_witness:
  "\<not> rejected ''XTI:0200|39:00'' \<and>
   mti (decode ''XTI:0200|39:00'') = Some ''0200'' \<and>
   decode ''XTI:0200|39:00'' = decode ''MTI:0200|39:00'' \<and>
   decode ''XTI:0200|39:00|02:4111'' = decode ''XTI:0200|39:00''"
proof -
  have r: "\<not> rejected ''XTI:0200|39:00''"
    by (simp add: rejected_def missing_delimiter_def missing_type_tag_def segment1_def
        segment2_def malformed_pair_def)
  have m: "message_type_text ''XTI:0200|39:00'' = ''0200''"
    by (simp add: message_type_text_def segment1_def)
  note t = tag_not_verified
    [of "''XTI:0200|39:00''" "''XTI''" "''MTI''" "''0200|39:00''" "''XTI:0200''" "''39:00''"
        "''02:4111''"]
  from t r have "mti (decode ''XTI:0200|39:00'') = Some (message_type_text ''XTI:0200|39:00'')"
    by blast
  with m have c1: "mti (decode ''XTI:0200|39:00'') = Some ''0200''"
    by (simp only:)
  from t have c2: "decode ''XTI:0200|39:00'' = decode ''MTI:0200|39:00''"
    by simp
  from t have c3: "decode ''XTI:0200|39:00|02:4111'' = decode ''XTI:0200|39:00''"
    by simp
  from r c1 c2 c3 show ?thesis by blast
qed

section \<open>The pipeline, branch by branch\<close>

lemma required_present_iff: "required_present data \<longleftrightarrow> first_offending data = None"
  by (auto simp: required_present_def first_offending_def required_fields_def)

lemma process_rejected:
  "\<not> required_present data \<Longrightarrow>
     process_payment_logic_using payout env w data =
       ([''status'' \<mapsto> JStr ''declined'',
         ''response_code'' \<mapsto> JStr ''99'',
         ''message'' \<mapsto> JStr ''Missing transaction data.''], w)"
  by (simp add: process_payment_logic_using_def)

lemma process_declined:
  "required_present data \<Longrightarrow> \<not> random_choice env \<Longrightarrow>
     fst (process_payment_logic_using payout env w data) =
       make_result False ''51'' ''Transaction declined by internal rules.'' JNull"
  by (simp add: process_payment_logic_using_def Let_def)

lemma process_approved:
  "required_present data \<Longrightarrow> random_choice env \<Longrightarrow>
     fst (process_payment_logic_using payout env w data) =
       (let payout_result = fst (payout (dict_get data ''amount'') ''USDT_TRC20'' merchant_wallet) in
        if status payout_result = ''success'' then
          make_result True ''00'' ''Transaction approved and payout initiated.''
            (case hash payout_result of None \<Rightarrow> JNull | Some h \<Rightarrow> JStr h)
        else make_result True ''05'' ''Transaction approved, but payout failed.'' JNull)"
  by (simp add: process_payment_logic_using_def Let_def split: prod.splits)

lemma process_builtin_approved:
  "required_present data \<Longrightarrow> random_choice env \<Longrightarrow>
     fst (process_payment_logic env w data) =
       (case urandom env of
          Inr bytes \<Rightarrow>
            make_result True ''00'' ''Transaction approved and payout initiated.''
              (JStr (''0x'' @ bytes_hex bytes))
        | Inl e \<Rightarrow>
            make_result True ''05'' ''Transaction approved, but payout failed.'' JNull)"
  by (simp add: process_payment_logic_def process_approved initiate_payout_def Let_def
      split: sum.splits)

lemma process_builtin_declined:
  "required_present data \<Longrightarrow> \<not> random_choice env \<Longrightarrow>
     fst (process_payment_logic env w data) =
       make_result False ''51'' ''Transaction declined by internal rules.'' JNull"
  by (simp add: process_payment_logic_def process_declined)


lemma db_after_log:
  "db (log_transaction_to_firestore env w user_id data result) =
     (case db w of
        None \<Rightarrow> None
      | Some store \<Rightarrow>
          if truthy user_id \<and> firestore_add env = None then
            Some (store @ [(app_id w, user_id,
              [''amount'' \<mapsto> Plain (dict_get data ''amount''),
               ''currency'' \<mapsto> Plain (dict_get data ''currency''),
               ''protocol'' \<mapsto> Plain (dict_get data ''protocol''),
               ''cardNumber'' \<mapsto> Plain (dict_get data ''cardNumber''),
               ''status'' \<mapsto> Plain (dict_get result ''status''),
               ''response_code'' \<mapsto> Plain (dict_get result ''response_code''),
               ''blockchain_hash'' \<mapsto> Plain (dict_get result ''blockchain_hash''),
               ''timestamp'' \<mapsto> SERVER_TIMESTAMP])])
          else Some store)"
  by (auto simp add: log_transaction_to_firestore_def emit_def split: option.splits)

lemma stored_after_log:
  "stored_card_numbers (log_transaction_to_firestore env w user_id data result) =
     (case db w of
        None \<Rightarrow> []
      | Some store \<Rightarrow>
          if truthy user_id \<and> firestore_add env = None then
            stored_card_numbers w @ [Some (Plain (dict_get data ''cardNumber''))]
          else stored_card_numbers w)"
  by (auto simp add: stored_card_numbers_def db_after_log split: option.splits)

lemma stored_emit [simp]: "stored_card_numbers (emit events w) = stored_card_numbers w"
  by (simp add: stored_card_numbers_def emit_def)

lemma db_emit [simp]: "db (emit events w) = db w"
  by (simp add: emit_def)


lemma stored_after_process:
  assumes "required_present data"
  shows "stored_card_numbers (snd (process_payment_logic_using payout env w data)) =
     (case db w of
        None \<Rightarrow> []
      | Some store \<Rightarrow>
          if truthy (dict_get_default data ''userId'' (JStr ''virtual-terminal-1'')) \<and>
             firestore_add env = None
          then stored_card_numbers w @ [Some (Plain (dict_get data ''cardNumber''))]
          else stored_card_numbers w)"
proof (cases "random_choice env")
  case True
  obtain r ev where "payout (dict_get data ''amount'') ''USDT_TRC20'' merchant_wallet = (r, ev)"
    by fastforce
  with assms True show ?thesis
    by (simp add: process_payment_logic_using_def Let_def stored_after_log
        split: option.splits)
next
  case False
  with assms show ?thesis
    by (simp add: process_payment_logic_using_def Let_def stored_after_log
        split: option.splits)
qed



section \<open>Claims about the pipeline\<close>

text \<open>
  C4. For every request that passes the presence check and is approved, a payout
  whose status is not \<open>success\<close> leaves the reply approved, with response code
  \<open>05\<close> and a null \<open>blockchain_hash\<close>; the code is not \<open>51\<close>.
\<close>

theorem settlement_failure_isolation:
  assumes "required_present data"
    and "random_choice env"
    and "status (fst (payout (dict_get data ''amount'') ''USDT_TRC20'' merchant_wallet)) \<noteq> ''success''"
  shows "fst (process_payment_logic_using payout env w data) ''status'' = Some (JStr ''approved'') \<and>
         fst (process_payment_logic_using payout env w data) ''response_code'' = Some (JStr ''05'') \<and>
         fst (process_payment_logic_using payout env w data) ''blockchain_hash'' = Some JNull \<and>
         fst (process_payment_logic_using payout env w data) ''response_code'' \<noteq> Some (JStr ''51'')"
  using assms by (simp add: process_approved make_result_def)

theorem settlement_failure_isolation_witness:
  "required_present sample_request \<and> random_choice (sample_env True) \<and>
   status (fst (failing_payout (dict_get sample_request ''amount'') ''USDT_TRC20'' merchant_wallet))
     \<noteq> ''success'' \<and>
   fst (process_payment_logic_using failing_payout (sample_env True) sample_world sample_request)
     ''status'' = Some (JStr ''approved'') \<and>
   fst (process_payment_logic_using failing_payout (sample_env True) sample_world sample_request)
     ''response_code'' = Some (JStr ''05'') \<and>
   fst (process_payment_logic_using failing_payout (sample_env True) sample_world sample_request)
     ''blockchain_hash'' = Some JNull"
proof -
  have h1: "required_present sample_request"
    by (simp add: required_present_def sample_request_def dict_get_def)
  have h2: "random_choice (sample_env True)"
    by (simp add: sample_env_def)
  have h3: "status (fst (failing_payout (dict_get sample_request ''amount'') ''USDT_TRC20''
      merchant_wallet)) \<noteq> ''success''"
    by (simp add: failing_payout_def)
  from settlement_failure_isolation
    [where payout = failing_payout and data = sample_request and env = "sample_env True"
       and w = sample_world]
    h1 h2 h3
  show ?thesis by blast
qed

text \<open>
  C2, as the claim states it: the \<open>cardNumber\<close> of every persisted record is masked.
  The sample request carries the card number \<open>4111111111111111\<close>; the record the
  run adds to the database carries the same sixteen digits.
\<close>

theorem card_number_persisted_as_received:
  "dict_get sample_request ''cardNumber'' = JStr ''4111111111111111'' \<and>
   stored_card_numbers sample_world = [] \<and>
   stored_card_numbers
     (snd (process_payment_logic (sample_env True) sample_world sample_request)) =
     [Some (Plain (JStr ''4111111111111111''))]"
proof -
  have p: "required_present sample_request"
    by (simp add: required_present_def sample_request_def dict_get_def)
  have c: "dict_get sample_request ''cardNumber'' = JStr ''4111111111111111''"
    by (simp add: sample_request_def dict_get_def)
  have u: "truthy (dict_get_default sample_request ''userId'' (JStr ''virtual-terminal-1''))"
    by (simp add: sample_request_def dict_get_default_def)
  have s: "stored_card_numbers sample_world = []"
    by (simp add: stored_card_numbers_def sample_world_def)
  have "stored_card_numbers
     (snd (process_payment_logic (sample_env True) sample_world sample_request)) =
     stored_card_numbers sample_world @ [Some (Plain (dict_get sample_request ''cardNumber''))]"
    unfolding process_payment_logic_def
    using stored_after_process [OF p, of "initiate_payout (urandom (sample_env True))"
        "sample_env True" sample_world] u
    by (simp add: sample_world_def sample_env_def)
  with c s show ?thesis by simp
qed

text \<open>
  C2, amended: when a request passes the presence check, the database is available,
  the user id is truthy and the Firestore calls return, the run adds one record, and
  the \<open>cardNumber\<close> of that record is the \<open>cardNumber\<close> of the request as it was
  received; the pipeline has no masking step.
\<close>

theorem ledger_record_card_number:
  assumes "required_present data"
    and "db w = Some store"
    and "truthy (dict_get_default data ''userId'' (JStr ''virtual-terminal-1''))"
    and "firestore_add env = None"
  shows "stored_card_numbers (snd (process_payment_logic_using payout env w data)) =
           stored_card_numbers w @ [Some (Plain (dict_get data ''cardNumber''))]"
  using stored_after_process [OF assms(1), of payout env w] assms(2-4) by simp

theorem ledger_record_card_number_witness:
  "required_present sample_request \<and> db sample_world = Some [] \<and>
   truthy (dict_get_default sample_request ''userId'' (JStr ''virtual-terminal-1'')) \<and>
   firestore_add (sample_env False) = None \<and>
   stored_card_numbers
     (snd (process_payment_logic_using failing_payout (sample_env False) sample_world
        sample_request)) =
     stored_card_numbers sample_world @ [Some (Plain (dict_get sample_request ''cardNumber''))]"
proof -
  have h1: "required_present sample_request"
    by (simp add: required_present_def sample_request_def dict_get_def)
  have h2: "db sample_world = Some []"
    by (simp add: sample_world_def)
  have h3: "truthy (dict_get_default sample_request ''userId'' (JStr ''virtual-terminal-1''))"
    by (simp add: sample_request_def dict_get_default_def)
  have h4: "firestore_add (sample_env False) = None"
    by (simp add: sample_env_def)
  from ledger_record_card_number
    [where payout = failing_payout and data = sample_request and env = "sample_env False"
       and w = sample_world and store = "[]"]
    h1 h2 h3 h4
  show ?thesis by blast
qed

text \<open>
  C5, as the claim states it: two runs on the same request give the same outcome. The
  sample request is approved when \<open>random.choice\<close> draws \<open>True\<close> and declined when
  it draws \<open>False\<close>; nothing else differs between the two runs.
\<close>

theorem outcome_differs_between_runs:
  "fst (process_payment_logic (sample_env True) sample_world sample_request) ''status'' =
     Some (JStr ''approved'') \<and>
   fst (process_payment_logic (sample_env False) sample_world sample_request) ''status'' =
     Some (JStr ''declined'') \<and>
   fst (process_payment_logic (sample_env True) sample_world sample_request) \<noteq>
   fst (process_payment_logic (sample_env False) sample_world sample_request)"
proof -
  have p: "required_present sample_request"
    by (simp add: required_present_def sample_request_def dict_get_def)
  have a: "fst (process_payment_logic (sample_env True) sample_world sample_request) ''status'' =
     Some (JStr ''approved'')"
    using p
    by (simp add: process_builtin_approved make_result_def sample_env_def)
  have d: "fst (process_payment_logic (sample_env False) sample_world sample_request) ''status'' =
     Some (JStr ''declined'')"
    using p
    by (simp add: process_builtin_declined make_result_def sample_env_def)
  have "fst (process_payment_logic (sample_env True) sample_world sample_request) \<noteq>
     fst (process_payment_logic (sample_env False) sample_world sample_request)"
  proof
    assume "fst (process_payment_logic (sample_env True) sample_world sample_request) =
      fst (process_payment_logic (sample_env False) sample_world sample_request)"
    then have "fst (process_payment_logic (sample_env True) sample_world sample_request) ''status'' =
      fst (process_payment_logic (sample_env False) sample_world sample_request) ''status''"
      by (rule arg_cong)
    with a d show False by simp
  qed
  with a d show ?thesis by blast
qed

text \<open>
  C5, amended: the reply to a request that passes the presence check is determined by
  the two random draws of the run alone, the value of \<open>random.choice\<close> and the bytes
  of \<open>os.urandom\<close>: two runs with the same draws give the same reply whatever the
  requests and the state of the ledger, and the status is \<open>approved\<close> exactly when
  \<open>random.choice\<close> drew \<open>True\<close>.
\<close>

theorem reply_determined_by_draws:
  assumes "required_present data" and "required_present data'"
    and "random_choice env = random_choice env'"
    and "urandom env = urandom env'"
  shows "fst (process_payment_logic env w data) = fst (process_payment_logic env' w' data') \<and>
         fst (process_payment_logic env w data) ''status'' =
           Some (JStr (if random_choice env then ''approved'' else ''declined''))"
proof (cases "random_choice env")
  case True
  with assms show ?thesis
    by (simp add: process_builtin_approved make_result_def split: sum.splits)
next
  case False
  with assms show ?thesis
    by (simp add: process_builtin_declined make_result_def)
qed

theorem reply_determined_by_draws_witness:
  "required_present sample_request \<and>
   required_present (sample_request(''amount'' \<mapsto> JInt 700)) \<and>
   fst (process_payment_logic (sample_env True) sample_world sample_request) =
   fst (process_payment_logic ((sample_env True)\<lparr>firestore_add := Some FirestoreError\<rparr>)
          (sample_world\<lparr>db := None\<rparr>) (sample_request(''amount'' \<mapsto> JInt 700))) \<and>
   fst (process_payment_logic (sample_env True) sample_world sample_request) ''status'' =
     Some (JStr ''approved'')"
proof -
  have h1: "required_present sample_request"
    by (simp add: required_present_def sample_request_def dict_get_def)
  have h2: "required_present (sample_request(''amount'' \<mapsto> JInt 700))"
    by (simp add: required_present_def sample_request_def dict_get_def)
  have h3: "random_choice (sample_env True) =
      random_choice ((sample_env True)\<lparr>firestore_add := Some FirestoreError\<rparr>)"
    by simp
  have h4: "urandom (sample_env True) =
      urandom ((sample_env True)\<lparr>firestore_add := Some FirestoreError\<rparr>)"
    by simp
  have c: "random_choice (sample_env True)"
    by (simp add: sample_env_def)
  note t = reply_determined_by_draws
    [OF h1 h2 h3 h4, of sample_world "sample_world\<lparr>db := None\<rparr>"]
  from t [THEN conjunct2] c
  have s: "fst (process_payment_logic (sample_env True) sample_world sample_request) ''status'' =
     Some (JStr ''approved'')"
    by simp
  from t [THEN conjunct1] s h1 h2 show ?thesis by blast
qed

text \<open>
  C6, as the claim states it: the reply to an incomplete request names the first
  offending field. The request without \<open>amount\<close> and \<open>currency\<close> has \<open>amount\<close>
  as its first offending field; no text of the reply mentions \<open>amount\<close>.
\<close>

theorem missing_field_not_named:
  "first_offending incomplete_request = Some ''amount'' \<and>
   \<not> names_field
       (fst (process_payment_logic (sample_env True) sample_world incomplete_request))
       ''amount''"
proof -
  have f: "first_offending incomplete_request = Some ''amount''"
    by (simp add: first_offending_def required_fields_def incomplete_request_def dict_get_def)
  then have "\<not> required_present incomplete_request"
    by (simp add: required_present_iff)
  then have "fst (process_payment_logic (sample_env True) sample_world incomplete_request) =
     [''status'' \<mapsto> JStr ''declined'', ''response_code'' \<mapsto> JStr ''99'',
      ''message'' \<mapsto> JStr ''Missing transaction data.'']"
    by (simp add: process_payment_logic_def process_rejected)
  then have "\<not> names_field
       (fst (process_payment_logic (sample_env True) sample_world incomplete_request))
       ''amount''"
    by (simp add: names_field_def)
  with f show ?thesis by blast
qed

text \<open>
  C6, amended: a request in which one of \<open>amount\<close>, \<open>currency\<close>, \<open>cardNumber\<close>,
  \<open>protocol\<close> is missing or falsy gets the fixed reply \<open>declined\<close>, code \<open>99\<close>,
  message \<open>Missing transaction data.\<close>, whichever field is the first offending one;
  no payout is started, nothing is written to the ledger and nothing is logged.
\<close>

theorem missing_data_reply:
  "first_offending data = Some field \<Longrightarrow>
     process_payment_logic_using payout env w data =
       ([''status'' \<mapsto> JStr ''declined'',
         ''response_code'' \<mapsto> JStr ''99'',
         ''message'' \<mapsto> JStr ''Missing transaction data.''], w)"
  using process_rejected [of data payout env w] by (simp add: required_present_iff)

theorem missing_data_reply_witness:
  "first_offending (sample_request(''protocol'' \<mapsto> JStr [])) = Some ''protocol'' \<and>
   process_payment_logic_using failing_payout (sample_env True) sample_world
       (sample_request(''protocol'' \<mapsto> JStr [])) =
     ([''status'' \<mapsto> JStr ''declined'',
       ''response_code'' \<mapsto> JStr ''99'',
       ''message'' \<mapsto> JStr ''Missing transaction data.''], sample_world)"
proof -
  have f: "first_offending (sample_request(''protocol'' \<mapsto> JStr [])) = Some ''protocol''"
    by (simp add: first_offending_def required_fields_def sample_request_def dict_get_def)
  from missing_data_reply
    [where payout = failing_payout and env = "sample_env True" and w = sample_world
       and data = "sample_request(''protocol'' \<mapsto> JStr [])" and field = "''protocol''"]
    f
  show ?thesis by blast
qed



text \<open>
  C9, as the claim states it: the built-in payout succeeds on every call and the
  pipeline never replies with code \<open>05\<close>. When \<open>os.urandom\<close> raises, the
  \<open>except\<close> clause of \<open>initiate_payout\<close> returns status \<open>failure\<close> with no hash,
  and the approved sample request is answered with code \<open>05\<close> and a null hash.
\<close>

theorem builtin_payout_fails_when_urandom_raises:
  "fst (initiate_payout (Inl NotImplementedError) (JFloat 5 1) ''USDT_TRC20'' merchant_wallet) =
     \<lparr>status = ''failure'', hash = None\<rparr> \<and>
   fst (process_payment_logic ((sample_env True)\<lparr>urandom := Inl NotImplementedError\<rparr>)
          sample_world sample_request) ''status'' = Some (JStr ''approved'') \<and>
   fst (process_payment_logic ((sample_env True)\<lparr>urandom := Inl NotImplementedError\<rparr>)
          sample_world sample_request) ''response_code'' = Some (JStr ''05'') \<and>
   fst (process_payment_logic ((sample_env True)\<lparr>urandom := Inl NotImplementedError\<rparr>)
          sample_world sample_request) ''blockchain_hash'' = Some JNull"
proof -
  have p: "required_present sample_request"
    by (simp add: required_present_def sample_request_def dict_get_def)
  have c: "random_choice ((sample_env True)\<lparr>urandom := Inl NotImplementedError\<rparr>)"
    by (simp add: sample_env_def)
  have "fst (initiate_payout (Inl NotImplementedError) (JFloat 5 1) ''USDT_TRC20''
      merchant_wallet) = \<lparr>status = ''failure'', hash = None\<rparr>"
    by (simp add: initiate_payout_def)
  moreover have "fst (process_payment_logic ((sample_env True)\<lparr>urandom := Inl NotImplementedError\<rparr>)
      sample_world sample_request) =
      make_result True ''05'' ''Transaction approved, but payout failed.'' JNull"
    using process_builtin_approved [OF p c, of sample_world] by simp
  ultimately show ?thesis by (simp add: make_result_def)
qed

text \<open>
  C9, amended: the built-in payout returns status \<open>success\<close> exactly when
  \<open>os.urandom\<close> returns, and then with a hash and without logging a failure. In
  every run in which \<open>os.urandom\<close> returns, the pipeline does not reply with code
  \<open>05\<close>, and an approved request is answered with code \<open>00\<close> and a hash that is
  not null.
\<close>

theorem builtin_payout_succeeds_when_urandom_returns:
  "(status (fst (initiate_payout drawn amount payout_type wallet_address)) = ''success'' \<longleftrightarrow>
      \<not> isl drawn) \<and>
   (drawn = Inr bytes \<longrightarrow>
      hash (fst (initiate_payout drawn amount payout_type wallet_address)) =
        Some (''0x'' @ bytes_hex bytes) \<and>
      (\<forall>e. PayoutFailed e \<notin>
         set (snd (initiate_payout drawn amount payout_type wallet_address)))) \<and>
   (urandom env = Inr bytes' \<longrightarrow>
      fst (process_payment_logic env w data) ''response_code'' \<noteq> Some (JStr ''05'') \<and>
      (required_present data \<and> random_choice env \<longrightarrow>
         fst (process_payment_logic env w data) ''status'' = Some (JStr ''approved'') \<and>
         fst (process_payment_logic env w data) ''response_code'' = Some (JStr ''00'') \<and>
         fst (process_payment_logic env w data) ''blockchain_hash'' =
           Some (JStr (''0x'' @ bytes_hex bytes'))))"
proof (intro conjI impI allI)
  show "status (fst (initiate_payout drawn amount payout_type wallet_address)) = ''success'' \<longleftrightarrow>
      \<not> isl drawn"
    by (cases drawn) (simp_all add: initiate_payout_def Let_def)
next
  assume "drawn = Inr bytes"
  then show "hash (fst (initiate_payout drawn amount payout_type wallet_address)) =
        Some (''0x'' @ bytes_hex bytes)"
    by (simp add: initiate_payout_def Let_def)
next
  fix e
  assume "drawn = Inr bytes"
  then show "PayoutFailed e \<notin> set (snd (initiate_payout drawn amount payout_type wallet_address))"
    by (simp add: initiate_payout_def Let_def)
next
  assume u: "urandom env = Inr bytes'"
  show "fst (process_payment_logic env w data) ''response_code'' \<noteq> Some (JStr ''05'')"
  proof (cases "required_present data")
    case False
    then show ?thesis by (simp add: process_payment_logic_def process_rejected)
  next
    case True
    with u show ?thesis
      by (cases "random_choice env")
        (simp_all add: process_builtin_approved process_builtin_declined make_result_def)
  qed
next
  assume u: "urandom env = Inr bytes'" and a: "required_present data \<and> random_choice env"
  then show "fst (process_payment_logic env w data) ''status'' = Some (JStr ''approved'')"
    by (simp add: process_builtin_approved make_result_def)
next
  assume u: "urandom env = Inr bytes'" and a: "required_present data \<and> random_choice env"
  then show "fst (process_payment_logic env w data) ''response_code'' = Some (JStr ''00'')"
    by (simp add: process_builtin_approved make_result_def)
next
  assume u: "urandom env = Inr bytes'" and a: "required_present data \<and> random_choice env"
  then show "fst (process_payment_logic env w data) ''blockchain_hash'' =
           Some (JStr (''0x'' @ bytes_hex bytes'))"
    by (simp add: process_builtin_approved make_result_def)
qed

theorem builtin_payout_succeeds_when_urandom_returns_witness:
  "urandom (sample_env True) = Inr [171, 1] \<and>
   required_present sample_request \<and> random_choice (sample_env True) \<and>
   status (fst (initiate_payout (Inr [171, 1]) (JFloat 5 1) ''USDT_TRC20'' merchant_wallet)) =
     ''success'' \<and>
   hash (fst (initiate_payout (Inr [171, 1]) (JFloat 5 1) ''USDT_TRC20'' merchant_wallet)) =
     Some ''0xab01'' \<and>
   fst (process_payment_logic (sample_env True) sample_world sample_request) ''response_code'' =
     Some (JStr ''00'') \<and>
   fst (process_payment_logic (sample_env True) sample_world sample_request) ''blockchain_hash'' =
     Some (JStr ''0xab01'')"
proof -
  have h0: "urandom (sample_env True) = Inr [171, 1]"
    by (simp add: sample_env_def)
  have h1: "required_present sample_request"
    by (simp add: required_present_def sample_request_def dict_get_def)
  have h2: "random_choice (sample_env True)"
    by (simp add: sample_env_def)
  have x: "''0x'' @ bytes_hex [171, 1] = ''0xab01''"
    by (simp add: bytes_hex_def hex_byte_def hex_digit_def)
  from builtin_payout_succeeds_when_urandom_returns
    [where drawn = "Inr [171, 1]" and bytes = "[171, 1]" and bytes' = "[171, 1]"
       and amount = "JFloat 5 1" and payout_type = "''USDT_TRC20''"
       and wallet_address = merchant_wallet and env = "sample_env True" and w = sample_world
       and data = sample_request]
    h0 h1 h2 x
  show ?thesis by simp
qed

end
